theory Spec2Isabelle
  imports Main "HOL-Library.Word"
begin

section \<open>The Windows runner shell: \<^verbatim>\<open>windows/runner/flutter_window.cpp\<close>\<close>

text \<open>
  The file is glue between the Win32 windowing subsystem, the base class
  \<^verbatim>\<open>Win32Window\<close> and the engine's \<^verbatim>\<open>FlutterViewController\<close>. None of these
  collaborators is part of the file, so the model takes their behaviour as parameters
  (the record \<open>env\<close>) and writes every call made on one of them into a log, in the
  order the code makes them. What the file itself owns is modelled in full: the two
  fields it mutates, the rectangle it overwrites, its early returns and the pointers
  it dereferences.
\<close>

subsection \<open>Win32 types and constants\<close>

text \<open>
  Handles, \<^verbatim>\<open>WPARAM\<close>, \<^verbatim>\<open>LPARAM\<close> and \<^verbatim>\<open>LRESULT\<close> are pointer sized (64 bit on the
  platforms the engine supports); \<^verbatim>\<open>UINT\<close> and \<^verbatim>\<open>LONG\<close> are 32 bit.
\<close>

type_synonym HWND = "64 word"
type_synonym UINT = "32 word"
type_synonym WPARAM = "64 word"
type_synonym LPARAM = "64 word"
type_synonym LRESULT = "64 word"
type_synonym LONG = "32 word"

text \<open>
  The message numbers and the hit-test code come from the Windows SDK header
  \<^verbatim>\<open>WinUser.h\<close>, which the file includes through \<^verbatim>\<open>Windowsx.h\<close>; the values below
  are the SDK's.
\<close>

definition WM_FONTCHANGE :: UINT where
  "WM_FONTCHANGE = 0x001D"

definition WM_NCCALCSIZE :: UINT where
  "WM_NCCALCSIZE = 0x0083"

definition WM_NCHITTEST :: UINT where
  "WM_NCHITTEST = 0x0084"

definition HTMAXBUTTON :: LRESULT where
  "HTMAXBUTTON = 9"

text \<open>\<^verbatim>\<open>RECT\<close>: four \<^verbatim>\<open>LONG\<close> fields \<^verbatim>\<open>left, top, right, bottom\<close>.\<close>

record RECT =
  rect_left :: LONG
  rect_top :: LONG
  rect_right :: LONG
  rect_bottom :: LONG

text \<open>
  The memory a message parameter may point into. \<^verbatim>\<open>(LPNCCALCSIZE_PARAMS)lparam\<close>
  followed by \<^verbatim>\<open>->rgrc[0]\<close> is the \<^verbatim>\<open>RECT\<close> that starts at address \<^verbatim>\<open>lparam\<close>
  (the array is the first member of \<^verbatim>\<open>NCCALCSIZE_PARAMS\<close>, and for a false
  \<^verbatim>\<open>wparam\<close> the parameter is a bare \<^verbatim>\<open>RECT*\<close>), so the heap maps an address to the
  rectangle stored there, and has no entry where no rectangle lives.
\<close>

type_synonym rect_heap = "LPARAM \<rightharpoonup> RECT"

subsection \<open>The engine controller and the window's fields\<close>

type_synonym DartProject = string

datatype FlutterEngine = FlutterEngine (messenger: nat)

datatype FlutterView = FlutterView (GetNativeWindow: HWND)

text \<open>
  \<^verbatim>\<open>flutter::FlutterViewController\<close>: opaque but for the two accessors the file
  reads, each a pointer that \<^verbatim>\<open>OnCreate\<close> tests against null.
\<close>

record FlutterViewController =
  engine :: "FlutterEngine option"
  view :: "FlutterView option"

text \<open>
  The fields of \<^verbatim>\<open>FlutterWindow\<close>. \<^verbatim>\<open>flutter_controller_\<close> is a
  \<^verbatim>\<open>std::unique_ptr\<close>: \<open>None\<close> is the null pointer.
\<close>

record FlutterWindow =
  flutter_controller :: "FlutterViewController option"
  maximum_button_hover :: bool
  project :: DartProject

subsection \<open>Calls on collaborators\<close>

datatype call =
    Base_OnCreate
  | Get_ClientArea
  | New_FlutterViewController LONG LONG DartProject
  | Delete_FlutterViewController
  | RegisterPlugins FlutterEngine
  | SetMethodCallHandler nat string
  | SetChildContent HWND
  | SetNextFrameCallback FlutterEngine
  | ForceRedraw
  | Base_OnDestroy
  | Forward_HandleTopLevelWindowProc HWND UINT WPARAM LPARAM
  | ReloadSystemFonts FlutterEngine
  | Call_DefWindowProc HWND UINT WPARAM LPARAM
  | Base_MessageHandler HWND UINT WPARAM LPARAM
  | Result_Success
  | Result_NotImplemented

text \<open>
  What the collaborators answer. A window procedure may write through \<^verbatim>\<open>lparam\<close>, so
  the three of them take the heap and return it. They are given no access to the
  fields of the object: where the base class calls back into it (its handler calls
  \<^verbatim>\<open>OnDestroy\<close> on \<^verbatim>\<open>WM_DESTROY\<close>), the call back is a step of its own in the runs
  below.
\<close>

record env =
  Win32Window_OnCreate :: bool
  GetClientArea :: RECT
  make_FlutterViewController :: "LONG \<Rightarrow> LONG \<Rightarrow> DartProject \<Rightarrow> FlutterViewController"
  HandleTopLevelWindowProc ::
    "FlutterViewController \<Rightarrow> HWND \<Rightarrow> UINT \<Rightarrow> WPARAM \<Rightarrow> LPARAM \<Rightarrow> rect_heap
      \<Rightarrow> LRESULT option \<times> rect_heap"
  DefWindowProc :: "HWND \<Rightarrow> UINT \<Rightarrow> WPARAM \<Rightarrow> LPARAM \<Rightarrow> rect_heap \<Rightarrow> LRESULT \<times> rect_heap"
  Win32Window_MessageHandler ::
    "HWND \<Rightarrow> UINT \<Rightarrow> WPARAM \<Rightarrow> LPARAM \<Rightarrow> rect_heap \<Rightarrow> LRESULT \<times> rect_heap"

text \<open>The state the code runs in: the object, the heap, and the log of calls.\<close>

record world =
  window :: FlutterWindow
  memory :: rect_heap
  calls :: "call list"

definition logc :: "call \<Rightarrow> world \<Rightarrow> world" where
  "logc c s = s\<lparr>calls := calls s @ [c]\<rparr>"

text \<open>Dereferencing a null pointer, or writing where no rectangle lives.\<close>

datatype fault = Null_flutter_controller | Null_engine | Bad_lparam

subsection \<open>Construction\<close>

text \<open>
  \<^verbatim>\<open>FlutterWindow::FlutterWindow(project) : maximum_button_hover_(false), project_(project)\<close>;
  the \<^verbatim>\<open>unique_ptr\<close> member is default-initialised to null.
\<close>

definition FlutterWindow_new :: "DartProject \<Rightarrow> FlutterWindow" where
  "FlutterWindow_new p =
     \<lparr>flutter_controller = None, maximum_button_hover = False, project = p\<rparr>"

subsection \<open>The method call handler of channel \<^verbatim>\<open>ci.not.rune/snap\<close>\<close>

text \<open>
  The lambda of \<^verbatim>\<open>OnCreate\<close>, lines 40 to 52. It reads only the method's name; the
  reply is a call on the \<^verbatim>\<open>MethodResult\<close>.
\<close>

definition method_call_handler :: "world \<Rightarrow> string \<Rightarrow> world" where
  "method_call_handler s method_name =
     (if method_name = ''maximumButtonEnter'' then
        logc Result_Success (s\<lparr>window := (window s)\<lparr>maximum_button_hover := True\<rparr>\<rparr>)
      else if method_name = ''maximumButtonExit'' then
        logc Result_Success (s\<lparr>window := (window s)\<lparr>maximum_button_hover := False\<rparr>\<rparr>)
      else
        logc Result_NotImplemented s)"

subsection \<open>\<^verbatim>\<open>OnCreate\<close>\<close>

text \<open>
  Assigning to a \<^verbatim>\<open>unique_ptr\<close> deletes the object it owned, after the new one has
  been built.
\<close>

definition assign_controller :: "FlutterViewController option \<Rightarrow> world \<Rightarrow> world" where
  "assign_controller c s =
     (let s' = s\<lparr>window := (window s)\<lparr>flutter_controller := c\<rparr>\<rparr>
      in case flutter_controller (window s) of
           None \<Rightarrow> s'
         | Some old \<Rightarrow> logc Delete_FlutterViewController s')"

definition OnCreate :: "env \<Rightarrow> world \<Rightarrow> bool \<times> world" where
  "OnCreate env s =
     (let s1 = logc Base_OnCreate s in
      if \<not> Win32Window_OnCreate env then (False, s1)
      else
        let frame = GetClientArea env;
            s2 = logc Get_ClientArea s1;
            width = rect_right frame - rect_left frame;
            height = rect_bottom frame - rect_top frame;
            c = make_FlutterViewController env width height (project (window s2));
            s3 = assign_controller (Some c)
                   (logc (New_FlutterViewController width height (project (window s2))) s2)
        in case engine c of
             None \<Rightarrow> (False, s3)
           | Some e \<Rightarrow>
               (case view c of
                  None \<Rightarrow> (False, s3)
                | Some v \<Rightarrow>
                    (True,
                     logc ForceRedraw
                       (logc (SetNextFrameCallback e)
                          (logc (SetChildContent (GetNativeWindow v))
                             (logc (SetMethodCallHandler (messenger e) ''ci.not.rune/snap'')
                                (logc (RegisterPlugins e) s3)))))))"

subsection \<open>\<^verbatim>\<open>OnDestroy\<close>\<close>

definition OnDestroy :: "world \<Rightarrow> world" where
  "OnDestroy s =
     (let s1 = (case flutter_controller (window s) of
                  Some c \<Rightarrow> assign_controller None s
                | None \<Rightarrow> s)
      in logc Base_OnDestroy s1)"

subsection \<open>\<^verbatim>\<open>MessageHandler\<close>\<close>

text \<open>Line 110: the base class's handler, its answer returned as it is.\<close>

definition base_MessageHandler ::
  "env \<Rightarrow> world \<Rightarrow> HWND \<Rightarrow> UINT \<Rightarrow> WPARAM \<Rightarrow> LPARAM \<Rightarrow> LRESULT \<times> world" where
  "base_MessageHandler env s hwnd message wparam lparam =
     (let (r, m) = Win32Window_MessageHandler env hwnd message wparam lparam (memory s)
      in (r, logc (Base_MessageHandler hwnd message wparam lparam) (s\<lparr>memory := m\<rparr>)))"

text \<open>
  Lines 81 to 84: the message is offered to the controller when there is one. The
  answer is \<open>None\<close> when the controller declines and when there is no controller.
\<close>

definition offer ::
  "env \<Rightarrow> world \<Rightarrow> HWND \<Rightarrow> UINT \<Rightarrow> WPARAM \<Rightarrow> LPARAM \<Rightarrow> LRESULT option \<times> world" where
  "offer env s hwnd message wparam lparam =
     (case flutter_controller (window s) of
        None \<Rightarrow> (None, s)
      | Some c \<Rightarrow>
          (let (result, m) = HandleTopLevelWindowProc env c hwnd message wparam lparam (memory s)
           in (result,
               logc (Forward_HandleTopLevelWindowProc hwnd message wparam lparam)
                 (s\<lparr>memory := m\<rparr>))))"

text \<open>Lines 90 to 110: the switch, and the fall through to the base class.\<close>

definition MessageHandler_switch ::
  "env \<Rightarrow> world \<Rightarrow> HWND \<Rightarrow> UINT \<Rightarrow> WPARAM \<Rightarrow> LPARAM \<Rightarrow> fault + (LRESULT \<times> world)" where
  "MessageHandler_switch env s hwnd message wparam lparam =
     (if message = WM_FONTCHANGE then
        (case flutter_controller (window s) of
           None \<Rightarrow> Inl Null_flutter_controller
         | Some c \<Rightarrow>
             (case engine c of
                None \<Rightarrow> Inl Null_engine
              | Some e \<Rightarrow>
                  Inr (base_MessageHandler env (logc (ReloadSystemFonts e) s)
                         hwnd message wparam lparam)))
      else if message = WM_NCCALCSIZE then
        (let (result, m) = DefWindowProc env hwnd WM_NCCALCSIZE wparam lparam (memory s);
             s1 = logc (Call_DefWindowProc hwnd WM_NCCALCSIZE wparam lparam) (s\<lparr>memory := m\<rparr>)
         in case memory s1 lparam of
              None \<Rightarrow> Inl Bad_lparam
            | Some rc \<Rightarrow> Inr (result, s1\<lparr>memory := (memory s1)(lparam \<mapsto> rc\<lparr>rect_top := 56\<rparr>)\<rparr>))
      else if message = WM_NCHITTEST then
        (if maximum_button_hover (window s) then Inr (HTMAXBUTTON, s)
         else Inr (base_MessageHandler env s hwnd message wparam lparam))
      else
        Inr (base_MessageHandler env s hwnd message wparam lparam))"

definition MessageHandler ::
  "env \<Rightarrow> world \<Rightarrow> HWND \<Rightarrow> UINT \<Rightarrow> WPARAM \<Rightarrow> LPARAM \<Rightarrow> fault + (LRESULT \<times> world)" where
  "MessageHandler env s hwnd message wparam lparam =
     (case offer env s hwnd message wparam lparam of
        (Some result, s1) \<Rightarrow> Inr (result, s1)
      | (None, s1) \<Rightarrow> MessageHandler_switch env s1 hwnd message wparam lparam)"

subsection \<open>The life of a window\<close>

text \<open>
  Everything runs on the UI thread, one handler at a time: the object is constructed,
  then \<^verbatim>\<open>OnCreate\<close>, \<^verbatim>\<open>OnDestroy\<close>, window messages and channel calls arrive in
  some order, each running to its end on the state the one before left. Each step
  comes with what the collaborators answer during it, so that they may answer
  differently from one step to the next. A fault ends the run.
\<close>

definition initial_world :: "DartProject \<Rightarrow> rect_heap \<Rightarrow> world" where
  "initial_world p m = \<lparr>window = FlutterWindow_new p, memory = m, calls = []\<rparr>"

datatype event =
    Ev_OnCreate
  | Ev_OnDestroy
  | Ev_Message HWND UINT WPARAM LPARAM
  | Ev_MethodCall string

fun step :: "env \<Rightarrow> world \<Rightarrow> event \<Rightarrow> fault + world" where
  "step env s Ev_OnCreate = Inr (snd (OnCreate env s))"
| "step env s Ev_OnDestroy = Inr (OnDestroy s)"
| "step env s (Ev_Message hwnd message wparam lparam) =
     (case MessageHandler env s hwnd message wparam lparam of
        Inl f \<Rightarrow> Inl f
      | Inr (r, s') \<Rightarrow> Inr s')"
| "step env s (Ev_MethodCall method_name) = Inr (method_call_handler s method_name)"

fun run :: "world \<Rightarrow> (env \<times> event) list \<Rightarrow> fault + world" where
  "run s [] = Inr s"
| "run s ((env, e) # es) =
     (case step env s e of
        Inl f \<Rightarrow> Inl f
      | Inr s' \<Rightarrow> run s' es)"

subsection \<open>Concrete collaborators, for the examples\<close>

text \<open>
  A 1280 by 720 client area; a controller whose engine and view are present or absent
  as asked; a controller hook that answers every message with \<open>handled\<close>; a default
  window procedure that answers 0 and moves the top of the rectangle at \<^verbatim>\<open>lparam\<close>
  down by 31; a base class handler that answers 1.
\<close>

definition example_env :: "bool \<Rightarrow> bool \<Rightarrow> bool \<Rightarrow> LRESULT option \<Rightarrow> env" where
  "example_env base_ok engine_ok view_ok handled =
     \<lparr>Win32Window_OnCreate = base_ok,
      GetClientArea = \<lparr>rect_left = 0, rect_top = 0, rect_right = 1280, rect_bottom = 720\<rparr>,
      make_FlutterViewController =
        (\<lambda>width height p.
           \<lparr>engine = (if engine_ok then Some (FlutterEngine 1) else None),
            view = (if view_ok then Some (FlutterView 2) else None)\<rparr>),
      HandleTopLevelWindowProc = (\<lambda>c hwnd message wparam lparam m. (handled, m)),
      DefWindowProc =
        (\<lambda>hwnd message wparam lparam m.
           (0, case m lparam of
                 None \<Rightarrow> m
               | Some rc \<Rightarrow> m(lparam \<mapsto> rc\<lparr>rect_top := rect_top rc + 31\<rparr>))),
      Win32Window_MessageHandler = (\<lambda>hwnd message wparam lparam m. (1, m))\<rparr>"

definition example_heap :: rect_heap where
  "example_heap =
     [0x1000 \<mapsto> \<lparr>rect_left = 100, rect_top = 200, rect_right = 900, rect_bottom = 800\<rparr>]"

definition example_controller :: FlutterViewController where
  "example_controller = \<lparr>engine = Some (FlutterEngine 1), view = Some (FlutterView 2)\<rparr>"

text \<open>A window whose \<^verbatim>\<open>OnCreate\<close> has succeeded, with the hover flag as asked.\<close>

definition example_world :: "bool \<Rightarrow> world" where
  "example_world hover =
     \<lparr>window = \<lparr>flutter_controller = Some example_controller,
                 maximum_button_hover = hover, project = ''data''\<rparr>,
      memory = example_heap, calls = []\<rparr>"

section \<open>Properties\<close>

subsection \<open>Frame lemmas\<close>

lemmas msg_defs = WM_FONTCHANGE_def WM_NCCALCSIZE_def WM_NCHITTEST_def

lemmas example_defs = example_env_def example_world_def example_heap_def example_controller_def
  initial_world_def FlutterWindow_new_def

lemma window_logc [simp]: "window (logc c s) = window s"
  by (simp add: logc_def)

lemma memory_logc [simp]: "memory (logc c s) = memory s"
  by (simp add: logc_def)

lemma calls_logc [simp]: "calls (logc c s) = calls s @ [c]"
  by (simp add: logc_def)

text \<open>
  \<^verbatim>\<open>MessageHandler\<close> never writes a field of the object: whatever it returns, the
  window is the one it was called on.
\<close>

lemma window_offer: "window (snd (offer env s hwnd message wparam lparam)) = window s"
  by (simp add: offer_def split: option.splits prod.splits)

lemma window_base_MessageHandler:
  "base_MessageHandler env s hwnd message wparam lparam = (r, s') \<Longrightarrow> window s' = window s"
  by (auto simp: base_MessageHandler_def split: prod.splits)

lemma window_MessageHandler_switch:
  "MessageHandler_switch env s hwnd message wparam lparam = Inr (r, s') \<Longrightarrow> window s' = window s"
  by (auto simp: MessageHandler_switch_def Let_def
      split: if_splits option.splits prod.splits dest: window_base_MessageHandler)

lemma window_MessageHandler:
  assumes "MessageHandler env s hwnd message wparam lparam = Inr (r, s')"
  shows "window s' = window s"
proof (cases "offer env s hwnd message wparam lparam")
  case (Pair result s1)
  have w1: "window s1 = window s"
    using window_offer [of env s hwnd message wparam lparam] Pair by simp
  show ?thesis
  proof (cases result)
    case None
    with assms Pair have "MessageHandler_switch env s1 hwnd message wparam lparam = Inr (r, s')"
      by (simp add: MessageHandler_def)
    then show ?thesis using w1 window_MessageHandler_switch by metis
  next
    case (Some a)
    with assms Pair have "s' = s1" by (simp add: MessageHandler_def)
    then show ?thesis using w1 by simp
  qed
qed

text \<open>
  The hover flag is written by the channel handler only, and set by one method only.
\<close>

lemma hover_assign_controller [simp]:
  "maximum_button_hover (window (assign_controller c s)) = maximum_button_hover (window s)"
  by (simp add: assign_controller_def Let_def split: option.splits)

lemma hover_OnCreate:
  "maximum_button_hover (window (snd (OnCreate env s))) = maximum_button_hover (window s)"
  by (simp add: OnCreate_def Let_def split: option.splits)

lemma hover_OnDestroy:
  "maximum_button_hover (window (OnDestroy s)) = maximum_button_hover (window s)"
  by (simp add: OnDestroy_def Let_def split: option.splits)

lemma hover_method_call_handler:
  "method_name \<noteq> ''maximumButtonEnter'' \<Longrightarrow> \<not> maximum_button_hover (window s)
    \<Longrightarrow> \<not> maximum_button_hover (window (method_call_handler s method_name))"
  by (simp add: method_call_handler_def)

lemma hover_step:
  assumes "e \<noteq> Ev_MethodCall ''maximumButtonEnter''"
    and "\<not> maximum_button_hover (window s)"
    and "step env s e = Inr s'"
  shows "\<not> maximum_button_hover (window s')"
proof (cases e)
  case Ev_OnCreate
  with assms show ?thesis using hover_OnCreate [of env s] by auto
next
  case Ev_OnDestroy
  with assms show ?thesis using hover_OnDestroy [of s] by auto
next
  case (Ev_Message hwnd message wparam lparam)
  with assms obtain r where "MessageHandler env s hwnd message wparam lparam = Inr (r, s')"
    by (auto split: sum.splits prod.splits)
  then have "window s' = window s" by (rule window_MessageHandler)
  with assms show ?thesis by simp
next
  case (Ev_MethodCall n)
  with assms show ?thesis using hover_method_call_handler [of n s] by auto
qed

lemma hover_run:
  "Ev_MethodCall ''maximumButtonEnter'' \<notin> snd ` set es \<Longrightarrow> \<not> maximum_button_hover (window s)
    \<Longrightarrow> run s es = Inr s' \<Longrightarrow> \<not> maximum_button_hover (window s')"
proof (induction es arbitrary: s)
  case Nil
  then show ?case by simp
next
  case (Cons x es)
  obtain env e where x: "x = (env, e)" by (cases x)
  from Cons.prems(3) x obtain s1 where s1: "step env s e = Inr s1" and r: "run s1 es = Inr s'"
    by (auto split: sum.splits)
  from Cons.prems(1) x have "e \<noteq> Ev_MethodCall ''maximumButtonEnter''" by auto
  then have "\<not> maximum_button_hover (window s1)"
    using Cons.prems(2) s1 by (rule hover_step)
  with Cons.IH [of s1] Cons.prems(1) r show ?case by simp
qed

text \<open>Repeating a channel call any number of times.\<close>

lemma enter_funpow:
  "maximum_button_hover (window (((\<lambda>s. method_call_handler s ''maximumButtonEnter'') ^^ Suc n) s))"
  by (simp add: method_call_handler_def)

lemma exit_funpow:
  "\<not> maximum_button_hover (window (((\<lambda>s. method_call_handler s ''maximumButtonExit'') ^^ Suc n) s))"
  by (simp add: method_call_handler_def)

subsection \<open>The non-client size calculation\<close>

text \<open>
  Claim C1. For a \<^verbatim>\<open>WM_NCCALCSIZE\<close> message that the engine controller has not handled
  (it declined, or there is none), let default processing answer \<open>result\<close> and leave
  the heap \<open>m\<close>, with the client rectangle \<open>rc\<close> at \<^verbatim>\<open>lparam\<close>. Then
  \<^verbatim>\<open>MessageHandler\<close> returns \<open>result\<close>, and in the state it leaves the rectangle at
  \<^verbatim>\<open>lparam\<close> is \<open>rc\<close> with its top set to 56, whatever \<open>rc\<close> held: nothing else in
  memory differs from what default processing left, the object is untouched, and the
  one call made after the offer is the one to \<^verbatim>\<open>DefWindowProc\<close>.
\<close>

theorem MessageHandler_nccalcsize_top:
  assumes "fst (offer env s hwnd WM_NCCALCSIZE wparam lparam) = None"
    and "DefWindowProc env hwnd WM_NCCALCSIZE wparam lparam
           (memory (snd (offer env s hwnd WM_NCCALCSIZE wparam lparam))) = (result, m)"
    and "m lparam = Some rc"
  shows "\<exists>s'. MessageHandler env s hwnd WM_NCCALCSIZE wparam lparam = Inr (result, s')
           \<and> map_option rect_top (memory s' lparam) = Some 56
           \<and> memory s' = m(lparam \<mapsto> rc\<lparr>rect_top := 56\<rparr>)
           \<and> window s' = window s
           \<and> calls s' = calls (snd (offer env s hwnd WM_NCCALCSIZE wparam lparam))
                          @ [Call_DefWindowProc hwnd WM_NCCALCSIZE wparam lparam]"
proof (cases "offer env s hwnd WM_NCCALCSIZE wparam lparam")
  case (Pair result' s1)
  with assms(1) have none: "result' = None" by simp
  have w1: "window s1 = window s"
    using window_offer [of env s hwnd WM_NCCALCSIZE wparam lparam] Pair by simp
  from assms(2) Pair have d: "DefWindowProc env hwnd WM_NCCALCSIZE wparam lparam (memory s1) = (result, m)"
    by simp
  have "MessageHandler env s hwnd WM_NCCALCSIZE wparam lparam
          = MessageHandler_switch env s1 hwnd WM_NCCALCSIZE wparam lparam"
    using Pair none by (simp add: MessageHandler_def)
  also have "\<dots> = Inr (result, (logc (Call_DefWindowProc hwnd WM_NCCALCSIZE wparam lparam) (s1\<lparr>memory := m\<rparr>))
                       \<lparr>memory := m(lparam \<mapsto> rc\<lparr>rect_top := 56\<rparr>)\<rparr>)"
    using d assms(3) by (simp add: MessageHandler_switch_def msg_defs)
  finally show ?thesis using Pair w1 by (simp add: logc_def)
qed

text \<open>
  An instance: the rectangle (100, 200, 900, 800) at address \<open>0x1000\<close>, whose top
  default processing moves to 231, ends with top 56.
\<close>

theorem MessageHandler_nccalcsize_top_witness:
  "fst (offer (example_env True True True None) (example_world False) 1 WM_NCCALCSIZE 1 0x1000) = None
   \<and> DefWindowProc (example_env True True True None) 1 WM_NCCALCSIZE 1 0x1000
         (memory (snd (offer (example_env True True True None) (example_world False)
                         1 WM_NCCALCSIZE 1 0x1000)))
       = (0, [0x1000 \<mapsto> \<lparr>rect_left = 100, rect_top = 231, rect_right = 900, rect_bottom = 800\<rparr>])
   \<and> (\<exists>s'. MessageHandler (example_env True True True None) (example_world False)
               1 WM_NCCALCSIZE 1 0x1000 = Inr (0, s')
            \<and> memory s' 0x1000
                = Some \<lparr>rect_left = 100, rect_top = 56, rect_right = 900, rect_bottom = 800\<rparr>)"
proof -
  have h1: "fst (offer (example_env True True True None) (example_world False)
                   1 WM_NCCALCSIZE 1 0x1000) = None"
    by (simp add: offer_def example_defs)
  have h2: "DefWindowProc (example_env True True True None) 1 WM_NCCALCSIZE 1 0x1000
              (memory (snd (offer (example_env True True True None) (example_world False)
                              1 WM_NCCALCSIZE 1 0x1000)))
            = (0, [0x1000 \<mapsto> \<lparr>rect_left = 100, rect_top = 231, rect_right = 900, rect_bottom = 800\<rparr>])"
    by (simp add: offer_def example_defs logc_def)
  have h3: "[0x1000 \<mapsto> \<lparr>rect_left = 100, rect_top = 231, rect_right = 900, rect_bottom = 800\<rparr>]
              (0x1000 :: LPARAM)
            = Some \<lparr>rect_left = 100, rect_top = 231, rect_right = 900, rect_bottom = 800\<rparr>"
    by simp
  from MessageHandler_nccalcsize_top [OF h1 h2 h3] h1 h2 show ?thesis
    by auto
qed

subsection \<open>Messages the engine controller handles\<close>

text \<open>
  Claim C2. When there is an engine controller and its hook answers a message with a
  handled result, \<^verbatim>\<open>MessageHandler\<close> returns exactly that result. The state it leaves
  is the one it was called on but for the heap as the hook left it and one more entry
  in the log, the call of the hook: the fonts are not reloaded, \<^verbatim>\<open>DefWindowProc\<close> is
  not called and no rectangle is overwritten, the hover flag is not read into the
  result, and the base class's handler is not called. This holds for every message
  number, the three of the switch included.
\<close>

theorem MessageHandler_handled:
  assumes "flutter_controller (window s) = Some c"
    and "HandleTopLevelWindowProc env c hwnd message wparam lparam (memory s) = (Some result, m)"
  shows "MessageHandler env s hwnd message wparam lparam
           = Inr (result, s\<lparr>memory := m,
                          calls := calls s @ [Forward_HandleTopLevelWindowProc hwnd message wparam lparam]\<rparr>)"
  using assms by (simp add: MessageHandler_def offer_def logc_def)

text \<open>
  An instance: a \<^verbatim>\<open>WM_NCCALCSIZE\<close> that the hook answers with 7 leaves the rectangle
  at \<^verbatim>\<open>lparam\<close> as it was.
\<close>

theorem MessageHandler_handled_witness:
  "flutter_controller (window (example_world True)) = Some example_controller
   \<and> HandleTopLevelWindowProc (example_env True True True (Some 7)) example_controller
         1 WM_NCCALCSIZE 1 0x1000 (memory (example_world True)) = (Some 7, example_heap)
   \<and> MessageHandler (example_env True True True (Some 7)) (example_world True)
         1 WM_NCCALCSIZE 1 0x1000
       = Inr (7, (example_world True)
                   \<lparr>memory := example_heap,
                    calls := [Forward_HandleTopLevelWindowProc 1 WM_NCCALCSIZE 1 0x1000]\<rparr>)"
proof -
  have h1: "flutter_controller (window (example_world True)) = Some example_controller"
    by (simp add: example_world_def)
  have h2: "HandleTopLevelWindowProc (example_env True True True (Some 7)) example_controller
              1 WM_NCCALCSIZE 1 0x1000 (memory (example_world True)) = (Some 7, example_heap)"
    by (simp add: example_env_def example_world_def)
  have "calls (example_world True) = []"
    by (simp add: example_world_def)
  with MessageHandler_handled [OF h1 h2] h1 h2 show ?thesis
    by simp
qed

subsection \<open>The hit test while the pointer hovers over the maximize button\<close>

text \<open>
  Claim C3. For a \<^verbatim>\<open>WM_NCHITTEST\<close> message that the engine controller has not handled,
  with the hover flag set, \<^verbatim>\<open>MessageHandler\<close> returns \<^verbatim>\<open>HTMAXBUTTON\<close> for every
  \<^verbatim>\<open>wparam\<close> and \<^verbatim>\<open>lparam\<close> (the cursor coordinates travel in \<^verbatim>\<open>lparam\<close>), and
  calls nothing after the offer.
\<close>

theorem MessageHandler_nchittest_hover:
  assumes "fst (offer env s hwnd WM_NCHITTEST wparam lparam) = None"
    and "maximum_button_hover (window s)"
  shows "MessageHandler env s hwnd WM_NCHITTEST wparam lparam
           = Inr (HTMAXBUTTON, snd (offer env s hwnd WM_NCHITTEST wparam lparam))"
proof (cases "offer env s hwnd WM_NCHITTEST wparam lparam")
  case (Pair result s1)
  have "window s1 = window s"
    using window_offer [of env s hwnd WM_NCHITTEST wparam lparam] Pair by simp
  with assms Pair show ?thesis
    by (simp add: MessageHandler_def MessageHandler_switch_def msg_defs)
qed

text \<open>An instance: the cursor at (100, 200).\<close>

theorem MessageHandler_nchittest_hover_witness:
  "fst (offer (example_env True True True None) (example_world True) 1 WM_NCHITTEST 0 0x00C80064) = None
   \<and> maximum_button_hover (window (example_world True))
   \<and> MessageHandler (example_env True True True None) (example_world True) 1 WM_NCHITTEST 0 0x00C80064
       = Inr (9, logc (Forward_HandleTopLevelWindowProc 1 WM_NCHITTEST 0 0x00C80064)
                   (example_world True))"
proof -
  have h1: "fst (offer (example_env True True True None) (example_world True)
                   1 WM_NCHITTEST 0 0x00C80064) = None"
    by (simp add: offer_def example_defs)
  have h2: "maximum_button_hover (window (example_world True))"
    by (simp add: example_world_def)
  have "snd (offer (example_env True True True None) (example_world True)
               1 WM_NCHITTEST 0 0x00C80064)
        = logc (Forward_HandleTopLevelWindowProc 1 WM_NCHITTEST 0 0x00C80064) (example_world True)"
    by (simp add: offer_def example_defs logc_def)
  with MessageHandler_nchittest_hover [OF h1 h2] h1 h2 show ?thesis
    by (simp add: HTMAXBUTTON_def)
qed

subsection \<open>The two channel methods\<close>

text \<open>
  Claim C4. From any state, \<^verbatim>\<open>maximumButtonEnter\<close> leaves the hover flag true and
  \<^verbatim>\<open>maximumButtonExit\<close> leaves it false; each replies success and nothing else; a
  second call of the same method leaves the object as the first did; and after any
  number of repetitions, at least one, the flag is at the method's target value.
\<close>

theorem method_call_hover:
  "maximum_button_hover (window (method_call_handler s ''maximumButtonEnter''))
   \<and> \<not> maximum_button_hover (window (method_call_handler s ''maximumButtonExit''))
   \<and> calls (method_call_handler s ''maximumButtonEnter'') = calls s @ [Result_Success]
   \<and> calls (method_call_handler s ''maximumButtonExit'') = calls s @ [Result_Success]
   \<and> window (method_call_handler (method_call_handler s ''maximumButtonEnter'') ''maximumButtonEnter'')
       = window (method_call_handler s ''maximumButtonEnter'')
   \<and> window (method_call_handler (method_call_handler s ''maximumButtonExit'') ''maximumButtonExit'')
       = window (method_call_handler s ''maximumButtonExit'')
   \<and> maximum_button_hover
       (window (((\<lambda>s. method_call_handler s ''maximumButtonEnter'') ^^ Suc n) s))
   \<and> \<not> maximum_button_hover
       (window (((\<lambda>s. method_call_handler s ''maximumButtonExit'') ^^ Suc n) s))"
  using enter_funpow [of n s] exit_funpow [of n s]
  by (simp add: method_call_handler_def)

text \<open>
  Claim C5. For every method name other than \<^verbatim>\<open>maximumButtonEnter\<close> and
  \<^verbatim>\<open>maximumButtonExit\<close> the handler replies "not implemented", and that reply is all
  it does: the object (the hover flag with it) and the heap are unchanged.
\<close>

theorem method_call_not_implemented:
  assumes "method_name \<noteq> ''maximumButtonEnter''" and "method_name \<noteq> ''maximumButtonExit''"
  shows "method_call_handler s method_name = logc Result_NotImplemented s
         \<and> window (method_call_handler s method_name) = window s
         \<and> memory (method_call_handler s method_name) = memory s
         \<and> calls (method_call_handler s method_name) = calls s @ [Result_NotImplemented]"
  using assms by (simp add: method_call_handler_def)

text \<open>An instance: a method the channel does not know, called while the flag is set.\<close>

theorem method_call_not_implemented_witness:
  "''maximumButtonClick'' \<noteq> ''maximumButtonEnter'' \<and> ''maximumButtonClick'' \<noteq> ''maximumButtonExit''
   \<and> method_call_handler (example_world True) ''maximumButtonClick''
       = logc Result_NotImplemented (example_world True)
   \<and> maximum_button_hover (window (method_call_handler (example_world True) ''maximumButtonClick''))"
proof -
  have h1: "''maximumButtonClick'' \<noteq> ''maximumButtonEnter''" by simp
  have h2: "''maximumButtonClick'' \<noteq> ''maximumButtonExit''" by simp
  have "maximum_button_hover (window (example_world True))"
    by (simp add: example_world_def)
  with method_call_not_implemented [OF h1 h2, of "example_world True"] show ?thesis
    by simp
qed

subsection \<open>The font change\<close>

text \<open>
  Claim C6. Every \<^verbatim>\<open>WM_FONTCHANGE\<close> message that the engine controller has not
  handled is to reload the engine's system fonts and then fall through to the base
  class's handler. The code misses this where a pointer of line 92 is null. A window
  that has no controller (as constructed, before \<^verbatim>\<open>OnCreate\<close> builds one, after
  \<^verbatim>\<open>OnDestroy\<close> releases it) has not had the message handled, since the guard of
  line 81 skips the hook, and line 92 then dereferences the null
  \<^verbatim>\<open>flutter_controller_\<close> that line 81 tests for: no font is reloaded and the base
  class's handler is never reached. The same happens on the engine pointer, which
  line 31 tests for, of a controller that \<^verbatim>\<open>OnCreate\<close> found without an engine and
  that declines the message.
\<close>

theorem MessageHandler_fontchange_null_deref:
  "fst (offer (example_env True True True None) (initial_world ''data'' example_heap)
          1 WM_FONTCHANGE 0 0) = None
   \<and> MessageHandler (example_env True True True None) (initial_world ''data'' example_heap)
         1 WM_FONTCHANGE 0 0 = Inl Null_flutter_controller
   \<and> fst (offer (example_env True False True None)
            (snd (OnCreate (example_env True False True None) (initial_world ''data'' example_heap)))
            1 WM_FONTCHANGE 0 0) = None
   \<and> MessageHandler (example_env True False True None)
         (snd (OnCreate (example_env True False True None) (initial_world ''data'' example_heap)))
         1 WM_FONTCHANGE 0 0 = Inl Null_engine"
  by (simp add: MessageHandler_def offer_def MessageHandler_switch_def OnCreate_def
      assign_controller_def logc_def example_defs Let_def)

subsection \<open>Failures of \<^verbatim>\<open>OnCreate\<close>\<close>

text \<open>
  Claim C7. If the base class's \<^verbatim>\<open>OnCreate\<close> fails, \<^verbatim>\<open>OnCreate\<close> returns false at
  once: the only call made is that one, so no controller is constructed, and the
  object is unchanged. If it succeeds and the controller built for the client area has
  a null engine or a null view, \<^verbatim>\<open>OnCreate\<close> returns false as well.
\<close>

theorem OnCreate_failure:
  "(\<not> Win32Window_OnCreate env \<longrightarrow>
      OnCreate env s = (False, logc Base_OnCreate s)
      \<and> window (snd (OnCreate env s)) = window s
      \<and> calls (snd (OnCreate env s)) = calls s @ [Base_OnCreate])
   \<and> (Win32Window_OnCreate env
        \<and> (engine (make_FlutterViewController env
                     (rect_right (GetClientArea env) - rect_left (GetClientArea env))
                     (rect_bottom (GetClientArea env) - rect_top (GetClientArea env))
                     (project (window s))) = None
           \<or> view (make_FlutterViewController env
                     (rect_right (GetClientArea env) - rect_left (GetClientArea env))
                     (rect_bottom (GetClientArea env) - rect_top (GetClientArea env))
                     (project (window s))) = None) \<longrightarrow>
      fst (OnCreate env s) = False)"
  by (auto simp: OnCreate_def Let_def split: option.splits)

text \<open>
  Two instances: a base class that fails, and a controller that comes without a view.
\<close>

theorem OnCreate_failure_witness:
  "\<not> Win32Window_OnCreate (example_env False True True None)
   \<and> OnCreate (example_env False True True None) (initial_world ''data'' example_heap)
       = (False, logc Base_OnCreate (initial_world ''data'' example_heap))
   \<and> flutter_controller
       (window (snd (OnCreate (example_env False True True None)
                       (initial_world ''data'' example_heap)))) = None
   \<and> Win32Window_OnCreate (example_env True True False None)
   \<and> view (make_FlutterViewController (example_env True True False None) 1280 720 ''data'') = None
   \<and> fst (OnCreate (example_env True True False None) (initial_world ''data'' example_heap)) = False"
proof -
  have a: "\<not> Win32Window_OnCreate (example_env False True True None)"
    by (simp add: example_env_def)
  have b: "Win32Window_OnCreate (example_env True True False None)"
    by (simp add: example_env_def)
  have c: "view (make_FlutterViewController (example_env True True False None) 1280 720 ''data'')
             = None"
    by (simp add: example_env_def)
  have d: "GetClientArea (example_env True True False None)
             = \<lparr>rect_left = 0, rect_top = 0, rect_right = 1280, rect_bottom = 720\<rparr>"
    by (simp add: example_env_def)
  have e: "project (window (initial_world ''data'' example_heap)) = ''data''"
    by (simp add: initial_world_def FlutterWindow_new_def)
  have f: "flutter_controller (window (initial_world ''data'' example_heap)) = None"
    by (simp add: initial_world_def FlutterWindow_new_def)
  from OnCreate_failure [of "example_env False True True None" "initial_world ''data'' example_heap"]
    OnCreate_failure [of "example_env True True False None" "initial_world ''data'' example_heap"]
    a b c d e f
  show ?thesis by simp
qed

subsection \<open>\<^verbatim>\<open>OnDestroy\<close>\<close>

text \<open>
  Claim C8. After \<^verbatim>\<open>OnDestroy\<close> the controller reference is null. When there was a
  controller it is deleted before the base class's \<^verbatim>\<open>OnDestroy\<close> is called; when the
  reference was null already, calling the base class is all that happens. So a second
  \<^verbatim>\<open>OnDestroy\<close> only calls the base class again.
\<close>

theorem OnDestroy_releases:
  "flutter_controller (window (OnDestroy s)) = None
   \<and> calls (OnDestroy s) =
       calls s
       @ (case flutter_controller (window s) of
            None \<Rightarrow> []
          | Some c \<Rightarrow> [Delete_FlutterViewController])
       @ [Base_OnDestroy]
   \<and> (flutter_controller (window s) = None \<longrightarrow> OnDestroy s = logc Base_OnDestroy s)
   \<and> OnDestroy (OnDestroy s) = logc Base_OnDestroy (OnDestroy s)"
  by (auto simp: OnDestroy_def assign_controller_def Let_def split: option.splits)

text \<open>
  Two instances: a window that never had a controller, and one that has.
\<close>

theorem OnDestroy_releases_witness:
  "flutter_controller (window (initial_world ''data'' example_heap)) = None
   \<and> OnDestroy (initial_world ''data'' example_heap)
       = logc Base_OnDestroy (initial_world ''data'' example_heap)
   \<and> flutter_controller (window (OnDestroy (example_world True))) = None
   \<and> calls (OnDestroy (example_world True)) = [Delete_FlutterViewController, Base_OnDestroy]"
proof -
  have a: "flutter_controller (window (initial_world ''data'' example_heap)) = None"
    by (simp add: initial_world_def FlutterWindow_new_def)
  have b: "flutter_controller (window (example_world True)) = Some example_controller"
    by (simp add: example_world_def)
  have c: "calls (example_world True) = []"
    by (simp add: example_world_def)
  from OnDestroy_releases [of "initial_world ''data'' example_heap"]
    OnDestroy_releases [of "example_world True"] a b c
  show ?thesis by simp
qed

subsection \<open>The unchecked dereference of the font change branch\<close>

text \<open>
  Claim C9. The guard of line 81 keeps a null controller from being offered the
  message, not from being dereferenced at line 92: a \<^verbatim>\<open>WM_FONTCHANGE\<close> message ends
  in the dereference of a null \<^verbatim>\<open>flutter_controller_\<close> exactly when the reference is
  null on arrival, whatever the collaborators answer. That fault is out of reach if
  and only if the reference is not null.
\<close>

theorem fontchange_null_controller_fault:
  "(MessageHandler env s hwnd WM_FONTCHANGE wparam lparam = Inl Null_flutter_controller)
     = (flutter_controller (window s) = None)"
proof (cases "flutter_controller (window s)")
  case None
  then show ?thesis
    by (simp add: MessageHandler_def offer_def MessageHandler_switch_def)
next
  case (Some c)
  then show ?thesis
    by (auto simp: MessageHandler_def offer_def MessageHandler_switch_def
        split: prod.splits option.splits)
qed

text \<open>
  Two instances: a window just constructed, and one whose \<^verbatim>\<open>OnCreate\<close> has succeeded.
\<close>

theorem fontchange_null_controller_fault_witness:
  "flutter_controller (window (initial_world ''data'' example_heap)) = None
   \<and> MessageHandler (example_env True True True None) (initial_world ''data'' example_heap)
         1 WM_FONTCHANGE 0 0 = Inl Null_flutter_controller
   \<and> flutter_controller (window (example_world False)) \<noteq> None
   \<and> MessageHandler (example_env True True True None) (example_world False)
         1 WM_FONTCHANGE 0 0 \<noteq> Inl Null_flutter_controller"
proof -
  have a: "flutter_controller (window (initial_world ''data'' example_heap)) = None"
    by (simp add: initial_world_def FlutterWindow_new_def)
  have b: "flutter_controller (window (example_world False)) \<noteq> None"
    by (simp add: example_world_def)
  from fontchange_null_controller_fault
         [of "example_env True True True None" "initial_world ''data'' example_heap" 1 0 0]
    fontchange_null_controller_fault
         [of "example_env True True True None" "example_world False" 1 0 0] a b
  show ?thesis by simp
qed

subsection \<open>The hover flag of a new window\<close>

text \<open>
  Claim C10, as amended. The constructor clears the hover flag, and nothing but a
  \<^verbatim>\<open>maximumButtonEnter\<close> call sets it. So in every state reached from a newly
  constructed window by \<^verbatim>\<open>OnCreate\<close>, \<^verbatim>\<open>OnDestroy\<close>, window messages and channel
  calls in any order, with no \<^verbatim>\<open>maximumButtonEnter\<close> among the calls, the flag is
  false, and a \<^verbatim>\<open>WM_NCHITTEST\<close> message that the engine controller has not handled
  falls through to the base class's handler, whose result is returned.
\<close>

theorem hover_initially_false:
  assumes "Ev_MethodCall ''maximumButtonEnter'' \<notin> snd ` set es"
    and "run (initial_world p m) es = Inr s"
    and "fst (offer env s hwnd WM_NCHITTEST wparam lparam) = None"
  shows "\<not> maximum_button_hover (window s)
         \<and> MessageHandler env s hwnd WM_NCHITTEST wparam lparam
             = Inr (base_MessageHandler env (snd (offer env s hwnd WM_NCHITTEST wparam lparam))
                      hwnd WM_NCHITTEST wparam lparam)"
proof -
  have "\<not> maximum_button_hover (window (initial_world p m))"
    by (simp add: initial_world_def FlutterWindow_new_def)
  with assms(1) have h: "\<not> maximum_button_hover (window s)"
    using assms(2) by (rule hover_run)
  obtain result s1 where o: "offer env s hwnd WM_NCHITTEST wparam lparam = (result, s1)"
    by (cases "offer env s hwnd WM_NCHITTEST wparam lparam")
  have "window s1 = window s"
    using window_offer [of env s hwnd WM_NCHITTEST wparam lparam] o by simp
  with h o assms(3) show ?thesis
    by (simp add: MessageHandler_def MessageHandler_switch_def msg_defs)
qed

text \<open>
  An instance: \<^verbatim>\<open>OnCreate\<close>, then a \<^verbatim>\<open>maximumButtonExit\<close>, then a hit test that the
  controller declines: the base class's answer, 1, is returned.
\<close>

theorem hover_initially_false_witness:
  "Ev_MethodCall ''maximumButtonEnter''
     \<notin> snd ` set [(example_env True True True None, Ev_OnCreate),
                   (example_env True True True (Some 7), Ev_MethodCall ''maximumButtonExit'')]
   \<and> run (initial_world ''data'' example_heap)
         [(example_env True True True None, Ev_OnCreate),
          (example_env True True True (Some 7), Ev_MethodCall ''maximumButtonExit'')]
       = Inr (method_call_handler
                (snd (OnCreate (example_env True True True None)
                        (initial_world ''data'' example_heap)))
                ''maximumButtonExit'')
   \<and> fst (offer (example_env True True True None)
            (method_call_handler
               (snd (OnCreate (example_env True True True None)
                       (initial_world ''data'' example_heap)))
               ''maximumButtonExit'')
            1 WM_NCHITTEST 0 0x00C80064) = None
   \<and> fst (projr (MessageHandler (example_env True True True None)
                   (method_call_handler
                      (snd (OnCreate (example_env True True True None)
                              (initial_world ''data'' example_heap)))
                      ''maximumButtonExit'')
                   1 WM_NCHITTEST 0 0x00C80064)) = 1"
proof -
  have h1: "Ev_MethodCall ''maximumButtonEnter''
              \<notin> snd ` set [(example_env True True True None, Ev_OnCreate),
                            (example_env True True True (Some 7),
                             Ev_MethodCall ''maximumButtonExit'')]"
    by simp
  have h2: "run (initial_world ''data'' example_heap)
              [(example_env True True True None, Ev_OnCreate),
               (example_env True True True (Some 7), Ev_MethodCall ''maximumButtonExit'')]
            = Inr (method_call_handler
                     (snd (OnCreate (example_env True True True None)
                             (initial_world ''data'' example_heap)))
                     ''maximumButtonExit'')"
    by simp
  have h3: "fst (offer (example_env True True True None)
                   (method_call_handler
                      (snd (OnCreate (example_env True True True None)
                              (initial_world ''data'' example_heap)))
                      ''maximumButtonExit'')
                   1 WM_NCHITTEST 0 0x00C80064) = None"
    by (simp add: offer_def method_call_handler_def OnCreate_def assign_controller_def logc_def
        example_defs Let_def)
  have "fst (base_MessageHandler (example_env True True True None) s 1 WM_NCHITTEST 0 0x00C80064) = 1"
    for s
    by (simp add: base_MessageHandler_def example_env_def)
  with hover_initially_false [OF h1 h2 h3] h1 h2 h3 show ?thesis
    by simp
qed

text \<open>
  Without the condition on the engine controller the claim fails: a hit test that
  arrives before any \<^verbatim>\<open>maximumButtonEnter\<close> and that the controller handles, here
  with 7, returns at line 86. The result is the controller's, not the base class's 1,
  and the base class's handler is not called.
\<close>

theorem hover_initially_false_counterexample:
  "Ev_MethodCall ''maximumButtonEnter''
     \<notin> snd ` set [(example_env True True True (Some 7), Ev_OnCreate)]
   \<and> run (initial_world ''data'' example_heap) [(example_env True True True (Some 7), Ev_OnCreate)]
       = Inr (snd (OnCreate (example_env True True True (Some 7))
                     (initial_world ''data'' example_heap)))
   \<and> MessageHandler (example_env True True True (Some 7))
         (snd (OnCreate (example_env True True True (Some 7)) (initial_world ''data'' example_heap)))
         1 WM_NCHITTEST 0 0x00C80064
       = Inr (7, logc (Forward_HandleTopLevelWindowProc 1 WM_NCHITTEST 0 0x00C80064)
                   (snd (OnCreate (example_env True True True (Some 7))
                           (initial_world ''data'' example_heap))))
   \<and> Base_MessageHandler 1 WM_NCHITTEST 0 0x00C80064
       \<notin> set (calls (logc (Forward_HandleTopLevelWindowProc 1 WM_NCHITTEST 0 0x00C80064)
                        (snd (OnCreate (example_env True True True (Some 7))
                                (initial_world ''data'' example_heap)))))
   \<and> fst (base_MessageHandler (example_env True True True (Some 7))
            (snd (OnCreate (example_env True True True (Some 7))
                    (initial_world ''data'' example_heap)))
            1 WM_NCHITTEST 0 0x00C80064) = 1"
  by (simp add: MessageHandler_def offer_def base_MessageHandler_def OnCreate_def
      assign_controller_def logc_def example_defs Let_def)

subsection \<open>Further properties\<close>

text \<open>
  Property X1. When the base class's \<^verbatim>\<open>OnCreate\<close> succeeds and the controller built
  for the client area's width and height has an engine and a view, \<^verbatim>\<open>OnCreate\<close>
  returns true, the object holds that controller, and the calls made are, in this
  order: the base class's \<^verbatim>\<open>OnCreate\<close>, \<^verbatim>\<open>GetClientArea\<close>, the construction of the
  controller (and the deletion of a controller the object held before), the
  registration of the plugins, the installation of the handler on channel
  \<^verbatim>\<open>ci.not.rune/snap\<close>, \<^verbatim>\<open>SetChildContent\<close> with the view's native window,
  \<^verbatim>\<open>SetNextFrameCallback\<close> and \<^verbatim>\<open>ForceRedraw\<close>.
\<close>

theorem OnCreate_success:
  assumes "Win32Window_OnCreate env"
    and "make_FlutterViewController env
           (rect_right (GetClientArea env) - rect_left (GetClientArea env))
           (rect_bottom (GetClientArea env) - rect_top (GetClientArea env))
           (project (window s)) = c"
    and "engine c = Some e"
    and "view c = Some v"
  shows "fst (OnCreate env s) = True
         \<and> window (snd (OnCreate env s)) = (window s)\<lparr>flutter_controller := Some c\<rparr>
         \<and> memory (snd (OnCreate env s)) = memory s
         \<and> calls (snd (OnCreate env s)) =
             calls s
             @ [Base_OnCreate, Get_ClientArea,
                New_FlutterViewController
                  (rect_right (GetClientArea env) - rect_left (GetClientArea env))
                  (rect_bottom (GetClientArea env) - rect_top (GetClientArea env))
                  (project (window s))]
             @ (case flutter_controller (window s) of
                  None \<Rightarrow> []
                | Some old \<Rightarrow> [Delete_FlutterViewController])
             @ [RegisterPlugins e, SetMethodCallHandler (messenger e) ''ci.not.rune/snap'',
                SetChildContent (GetNativeWindow v), SetNextFrameCallback e, ForceRedraw]"
  using assms
  by (simp add: OnCreate_def assign_controller_def logc_def Let_def split: option.splits)

text \<open>An instance: a new window with a 1280 by 720 client area.\<close>

theorem OnCreate_success_witness:
  "Win32Window_OnCreate (example_env True True True None)
   \<and> fst (OnCreate (example_env True True True None) (initial_world ''data'' example_heap)) = True
   \<and> flutter_controller
       (window (snd (OnCreate (example_env True True True None)
                       (initial_world ''data'' example_heap))))
       = Some example_controller
   \<and> calls (snd (OnCreate (example_env True True True None) (initial_world ''data'' example_heap)))
       = [Base_OnCreate, Get_ClientArea, New_FlutterViewController 1280 720 ''data'',
          RegisterPlugins (FlutterEngine 1), SetMethodCallHandler 1 ''ci.not.rune/snap'',
          SetChildContent 2, SetNextFrameCallback (FlutterEngine 1), ForceRedraw]"
proof -
  have a: "Win32Window_OnCreate (example_env True True True None)"
    by (simp add: example_env_def)
  have b: "make_FlutterViewController (example_env True True True None)
             (rect_right (GetClientArea (example_env True True True None))
               - rect_left (GetClientArea (example_env True True True None)))
             (rect_bottom (GetClientArea (example_env True True True None))
               - rect_top (GetClientArea (example_env True True True None)))
             (project (window (initial_world ''data'' example_heap))) = example_controller"
    by (simp add: example_env_def example_controller_def)
  have c: "engine example_controller = Some (FlutterEngine 1)"
    by (simp add: example_controller_def)
  have d: "view example_controller = Some (FlutterView 2)"
    by (simp add: example_controller_def)
  have e: "GetClientArea (example_env True True True None)
             = \<lparr>rect_left = 0, rect_top = 0, rect_right = 1280, rect_bottom = 720\<rparr>"
    by (simp add: example_env_def)
  have f: "window (initial_world ''data'' example_heap)
             = \<lparr>flutter_controller = None, maximum_button_hover = False, project = ''data''\<rparr>"
    "calls (initial_world ''data'' example_heap) = []"
    by (simp_all add: initial_world_def FlutterWindow_new_def)
  from OnCreate_success [OF a b c d] a e f show ?thesis
    by simp
qed

text \<open>
  Property X2. A message other than the three of the switch that the engine
  controller has not handled goes to the base class's handler, whose result is
  returned.
\<close>

theorem MessageHandler_other_messages:
  assumes "message \<noteq> WM_FONTCHANGE" and "message \<noteq> WM_NCCALCSIZE" and "message \<noteq> WM_NCHITTEST"
    and "fst (offer env s hwnd message wparam lparam) = None"
  shows "MessageHandler env s hwnd message wparam lparam
           = Inr (base_MessageHandler env (snd (offer env s hwnd message wparam lparam))
                    hwnd message wparam lparam)"
proof (cases "offer env s hwnd message wparam lparam")
  case (Pair result s1)
  with assms show ?thesis
    by (simp add: MessageHandler_def MessageHandler_switch_def)
qed

text \<open>An instance: \<^verbatim>\<open>WM_SIZE\<close>, message number 5.\<close>

theorem MessageHandler_other_messages_witness:
  "(0x0005 :: UINT) \<noteq> WM_FONTCHANGE \<and> (0x0005 :: UINT) \<noteq> WM_NCCALCSIZE
   \<and> (0x0005 :: UINT) \<noteq> WM_NCHITTEST
   \<and> fst (offer (example_env True True True None) (example_world True) 1 0x0005 0 0) = None
   \<and> MessageHandler (example_env True True True None) (example_world True) 1 0x0005 0 0
       = Inr (1, (example_world True)
                   \<lparr>calls := [Forward_HandleTopLevelWindowProc 1 0x0005 0 0,
                              Base_MessageHandler 1 0x0005 0 0]\<rparr>)"
proof -
  have h1: "(0x0005 :: UINT) \<noteq> WM_FONTCHANGE" by (simp add: msg_defs)
  have h2: "(0x0005 :: UINT) \<noteq> WM_NCCALCSIZE" by (simp add: msg_defs)
  have h3: "(0x0005 :: UINT) \<noteq> WM_NCHITTEST" by (simp add: msg_defs)
  have h4: "fst (offer (example_env True True True None) (example_world True) 1 0x0005 0 0) = None"
    by (simp add: offer_def example_defs)
  have "base_MessageHandler (example_env True True True None)
          (snd (offer (example_env True True True None) (example_world True) 1 0x0005 0 0))
          1 0x0005 0 0
        = (1, (example_world True)
                \<lparr>calls := [Forward_HandleTopLevelWindowProc 1 0x0005 0 0,
                           Base_MessageHandler 1 0x0005 0 0]\<rparr>)"
    by (simp add: base_MessageHandler_def offer_def logc_def example_defs)
  with MessageHandler_other_messages [OF h1 h2 h3 h4] h1 h2 h3 h4 show ?thesis
    by simp
qed

text \<open>
  Property X3. A \<^verbatim>\<open>WM_FONTCHANGE\<close> message that the engine controller was offered
  and declined, when the controller's engine pointer is not null, makes three calls
  in this order: the hook, \<^verbatim>\<open>ReloadSystemFonts\<close> on the engine, and the base class's
  handler, whose result is returned. The reload does not end the handling.
\<close>

theorem MessageHandler_fontchange:
  assumes "flutter_controller (window s) = Some c"
    and "engine c = Some e"
    and "HandleTopLevelWindowProc env c hwnd WM_FONTCHANGE wparam lparam (memory s) = (None, m)"
    and "Win32Window_MessageHandler env hwnd WM_FONTCHANGE wparam lparam m = (r, m')"
  shows "MessageHandler env s hwnd WM_FONTCHANGE wparam lparam
           = Inr (r, s\<lparr>memory := m',
                       calls := calls s @
                         [Forward_HandleTopLevelWindowProc hwnd WM_FONTCHANGE wparam lparam,
                          ReloadSystemFonts e,
                          Base_MessageHandler hwnd WM_FONTCHANGE wparam lparam]\<rparr>)"
  using assms
  by (simp add: MessageHandler_def offer_def MessageHandler_switch_def base_MessageHandler_def
      logc_def)

text \<open>An instance: a window whose \<^verbatim>\<open>OnCreate\<close> has succeeded.\<close>

theorem MessageHandler_fontchange_witness:
  "flutter_controller (window (example_world False)) = Some example_controller
   \<and> engine example_controller = Some (FlutterEngine 1)
   \<and> HandleTopLevelWindowProc (example_env True True True None) example_controller
         1 WM_FONTCHANGE 0 0 (memory (example_world False)) = (None, example_heap)
   \<and> Win32Window_MessageHandler (example_env True True True None) 1 WM_FONTCHANGE 0 0 example_heap
       = (1, example_heap)
   \<and> MessageHandler (example_env True True True None) (example_world False) 1 WM_FONTCHANGE 0 0
       = Inr (1, (example_world False)
                   \<lparr>memory := example_heap,
                    calls := [Forward_HandleTopLevelWindowProc 1 WM_FONTCHANGE 0 0,
                              ReloadSystemFonts (FlutterEngine 1),
                              Base_MessageHandler 1 WM_FONTCHANGE 0 0]\<rparr>)"
proof -
  have h1: "flutter_controller (window (example_world False)) = Some example_controller"
    by (simp add: example_world_def)
  have h2: "engine example_controller = Some (FlutterEngine 1)"
    by (simp add: example_controller_def)
  have h3: "HandleTopLevelWindowProc (example_env True True True None) example_controller
              1 WM_FONTCHANGE 0 0 (memory (example_world False)) = (None, example_heap)"
    by (simp add: example_env_def example_world_def)
  have h4: "Win32Window_MessageHandler (example_env True True True None) 1 WM_FONTCHANGE 0 0
              example_heap = (1, example_heap)"
    by (simp add: example_env_def)
  have "calls (example_world False) = []"
    by (simp add: example_world_def)
  with MessageHandler_fontchange [OF h1 h2 h3 h4] h1 h2 h3 h4 show ?thesis
    by simp
qed

end
